theory Spec2Isabelle
  imports Complex_Main
begin

section \<open>JavaScript numbers\<close>

text \<open>
  The engine is JavaScript. A number is a finite double, which is a real number, one of
  the two infinities, or \<open>NaN\<close>; negative zero is not told apart from zero.

  Comparisons, \<open>Math.max\<close>, \<open>Math.floor\<close>, \<open>Math.round\<close> and \<open>x % 1\<close> are exact.
  Addition, subtraction, multiplication and division return the exact result rounded to
  a double. The rounding is a parameter \<open>fl\<close> of every function that computes; the
  rounding of the engine is \<open>binary64\<close> below. What the operations do on infinities,
  on \<open>NaN\<close> and on a zero divisor does not depend on the rounding and is written out.
\<close>

datatype jsnumber = Finite real | PInfinity | NInfinity | NaN

type_synonym rounding = "real \<Rightarrow> jsnumber"

text \<open>The operator \<open><\<close>: false as soon as one side is \<open>NaN\<close>.\<close>

fun n_less :: "jsnumber \<Rightarrow> jsnumber \<Rightarrow> bool" where
  "n_less (Finite x) (Finite y) = (x < y)"
| "n_less (Finite x) PInfinity = True"
| "n_less NInfinity (Finite y) = True"
| "n_less NInfinity PInfinity = True"
| "n_less a b = False"

fun n_neg :: "jsnumber \<Rightarrow> jsnumber" where
  "n_neg (Finite x) = Finite (- x)"
| "n_neg PInfinity = NInfinity"
| "n_neg NInfinity = PInfinity"
| "n_neg NaN = NaN"

fun n_sign :: "jsnumber \<Rightarrow> int" where
  "n_sign (Finite x) = (if x < 0 then - 1 else if x = 0 then 0 else 1)"
| "n_sign PInfinity = 1"
| "n_sign NInfinity = - 1"
| "n_sign NaN = 0"

fun js_add :: "rounding \<Rightarrow> jsnumber \<Rightarrow> jsnumber \<Rightarrow> jsnumber" where
  "js_add fl (Finite x) (Finite y) = fl (x + y)"
| "js_add fl NaN b = NaN"
| "js_add fl a NaN = NaN"
| "js_add fl PInfinity NInfinity = NaN"
| "js_add fl NInfinity PInfinity = NaN"
| "js_add fl PInfinity b = PInfinity"
| "js_add fl a PInfinity = PInfinity"
| "js_add fl NInfinity b = NInfinity"
| "js_add fl a NInfinity = NInfinity"

definition js_sub :: "rounding \<Rightarrow> jsnumber \<Rightarrow> jsnumber \<Rightarrow> jsnumber" where
  "js_sub fl a b = js_add fl a (n_neg b)"

fun js_mul :: "rounding \<Rightarrow> jsnumber \<Rightarrow> jsnumber \<Rightarrow> jsnumber" where
  "js_mul fl (Finite x) (Finite y) = fl (x * y)"
| "js_mul fl NaN b = NaN"
| "js_mul fl a NaN = NaN"
| "js_mul fl a b =
     (if n_sign a * n_sign b = 0 then NaN
      else if 0 < n_sign a * n_sign b then PInfinity else NInfinity)"

fun js_div :: "rounding \<Rightarrow> jsnumber \<Rightarrow> jsnumber \<Rightarrow> jsnumber" where
  "js_div fl (Finite x) (Finite y) =
     (if y = 0 then (if x = 0 then NaN else if 0 < x then PInfinity else NInfinity)
      else fl (x / y))"
| "js_div fl NaN b = NaN"
| "js_div fl a NaN = NaN"
| "js_div fl (Finite x) b = Finite 0"
| "js_div fl a (Finite y) = (if 0 \<le> y then a else n_neg a)"
| "js_div fl a b = NaN"

text \<open>\<open>Math.max(0, x)\<close>, \<open>Math.floor(x)\<close>, \<open>Math.round(x)\<close> (halves go up) and \<open>x % 1\<close>.\<close>

fun n_max0 :: "jsnumber \<Rightarrow> jsnumber" where
  "n_max0 (Finite x) = Finite (max 0 x)"
| "n_max0 PInfinity = PInfinity"
| "n_max0 NInfinity = Finite 0"
| "n_max0 NaN = NaN"

fun n_floor :: "jsnumber \<Rightarrow> jsnumber" where
  "n_floor (Finite x) = Finite (of_int \<lfloor>x\<rfloor>)"
| "n_floor a = a"

fun n_round :: "jsnumber \<Rightarrow> jsnumber" where
  "n_round (Finite x) = Finite (of_int (round x))"
| "n_round a = a"

fun n_mod1 :: "jsnumber \<Rightarrow> jsnumber" where
  "n_mod1 (Finite x) = Finite (if 0 \<le> x then frac x else - frac (- x))"
| "n_mod1 a = NaN"

text \<open>\<open>x === 0\<close>.\<close>

definition n_is_zero :: "jsnumber \<Rightarrow> bool" where
  "n_is_zero a = (a = Finite 0)"

text \<open>
  A number used as an array index or as an array length: an integer from 0 below
  \<open>2\<^sup>3\<^sup>2 - 1\<close>, respectively up to it. Every other number names a property that is
  not an element, respectively makes \<open>new Array\<close> throw a \<open>RangeError\<close>.
\<close>

definition array_index :: "jsnumber \<Rightarrow> nat option" where
  "array_index a =
     (case a of
        Finite x \<Rightarrow> if 0 \<le> x \<and> x < 2 ^ 32 - 1 \<and> x = of_int \<lfloor>x\<rfloor> then Some (nat \<lfloor>x\<rfloor>) else None
      | _ \<Rightarrow> None)"

definition array_length :: "jsnumber \<Rightarrow> nat option" where
  "array_length a =
     (case a of
        Finite x \<Rightarrow> if 0 \<le> x \<and> x < 2 ^ 32 \<and> x = of_int \<lfloor>x\<rfloor> then Some (nat \<lfloor>x\<rfloor>) else None
      | _ \<Rightarrow> None)"

text \<open>
  The rounding of IEEE 754 double precision, to the nearest double, ties to the even
  mantissa. \<open>floor_log2 z\<close> is the exponent \<open>e\<close> with \<open>2\<^sup>e \<le> z < 2\<^sup>e\<^sup>+\<^sup>1\<close> for a positive
  \<open>z\<close> (\<open>bit_length k\<close> is the number of binary digits of \<open>k\<close>). The doubles next to \<open>z\<close>
  are the multiples of \<open>2\<^sup>e\<^sup>-\<^sup>5\<^sup>2\<close>, where \<open>e\<close> is at least \<open>-1022\<close> (below that the
  doubles are subnormal); a result beyond the largest double is an infinity.
\<close>

fun bit_length :: "nat \<Rightarrow> nat" where
  "bit_length k = (if k = 0 then 0 else Suc (bit_length (k div 2)))"

declare bit_length.simps [simp del]

definition floor_log2 :: "real \<Rightarrow> int" where
  "floor_log2 z =
     (if 1 \<le> z then int (bit_length (nat \<lfloor>z\<rfloor>)) - 1
      else - int (bit_length (nat (\<lceil>1 / z\<rceil> - 1))))"

definition pow2 :: "int \<Rightarrow> real" where
  "pow2 k = (if 0 \<le> k then 2 ^ nat k else 1 / 2 ^ nat (- k))"

definition round_half_even :: "real \<Rightarrow> int" where
  "round_half_even x =
     (if x - of_int \<lfloor>x\<rfloor> < 1 / 2 then \<lfloor>x\<rfloor>
      else if 1 / 2 < x - of_int \<lfloor>x\<rfloor> then \<lfloor>x\<rfloor> + 1
      else if even \<lfloor>x\<rfloor> then \<lfloor>x\<rfloor> else \<lfloor>x\<rfloor> + 1)"

definition max_double :: real where
  "max_double = (2 - 1 / 2 ^ 52) * 2 ^ 1023"

definition binary64 :: rounding where
  "binary64 z =
     (if z = 0 then Finite 0
      else
        (let u = pow2 (max (floor_log2 \<bar>z\<bar>) (- 1022) - 52);
             v = of_int (round_half_even (\<bar>z\<bar> / u)) * u
         in if max_double < v then (if 0 < z then PInfinity else NInfinity)
            else Finite (if 0 < z then v else - v)))"

section \<open>Values, objects and the heap\<close>

text \<open>
  Strings are ASCII. \<open>Math.random()\<close> is an explicit sequence of draws
  \<open>rnd 0, rnd 1, \<dots>\<close>, finite doubles, together with a counter of the draws already
  consumed, which every operation that draws takes and returns.

  A property key of an object is either a canonical array index (\<open>Pos i\<close>, the
  property names \<open>"0"\<close>, \<open>"1"\<close>, \<dots>) or any other name (\<open>Named s\<close>).
  \<open>Object.keys\<close> and \<open>for \<dots> in\<close> enumerate the index keys first, in ascending
  order, and then the other names in insertion order; an object is kept as an
  association list in exactly that enumeration order.
\<close>

datatype key = Pos nat | Named string

type_synonym jsobject = "(key \<times> jsnumber) list"

fun key_before :: "key \<Rightarrow> key \<Rightarrow> bool" where
  "key_before (Pos i) (Pos j) = (i < j)"
| "key_before (Pos i) (Named s) = True"
| "key_before (Named s) k = False"

text \<open>The assignment \<open>obj[k] = v\<close>.\<close>

fun obj_put :: "key \<Rightarrow> jsnumber \<Rightarrow> jsobject \<Rightarrow> jsobject" where
  "obj_put k v [] = [(k, v)]"
| "obj_put k v ((k', v') # kvs) =
     (if k = k' then (k, v) # kvs
      else if key_before k k' then (k, v) # (k', v') # kvs
      else (k', v') # obj_put k v kvs)"

definition Object_keys :: "jsobject \<Rightarrow> key list" where
  "Object_keys obj = map fst obj"

datatype error = Error string | TypeError string | RangeError string

text \<open>
  An \<open>EAIndividual\<close>: its \<open>variables\<close> object and its cached \<open>fitness\<close>, the
  result of the caller's fitness function, taken to be a finite number.
\<close>

record individual =
  variables :: jsobject
  fitness :: real

text \<open>
  Individuals and arrays are heap objects, compared by reference. A reference is a
  natural number; \<open>next_iref\<close> and \<open>next_aref\<close> are the first unused ones.
\<close>

type_synonym iref = nat
type_synonym aref = nat

record world =
  inds :: "iref \<Rightarrow> individual"
  next_iref :: iref
  arrs :: "aref \<Rightarrow> iref list"
  next_aref :: aref

text \<open>
  An element read from an array, or a slot of an array under construction: a hole
  left by \<open>new Array(n)\<close>, the value \<open>undefined\<close> (an out-of-range read stored
  back), or a reference to an individual.
\<close>

datatype slot = Hole | Undefined | Ref iref

text \<open>\<open>xs[i]\<close> for an integer \<open>i\<close>: \<open>undefined\<close> outside the array.\<close>

definition read_at :: "iref list \<Rightarrow> int \<Rightarrow> slot" where
  "read_at xs i = (if 0 \<le> i \<and> i < int (length xs) then Ref (xs ! nat i) else Undefined)"

text \<open>\<open>xs[i] = v\<close>: JavaScript extends the array, leaving holes, when \<open>i\<close> is past the end.\<close>

definition write_at :: "slot list \<Rightarrow> nat \<Rightarrow> slot \<Rightarrow> slot list" where
  "write_at xs i v =
     (if i < length xs then xs[i := v] else xs @ replicate (i - length xs) Hole @ [v])"

text \<open>\<open>Array.prototype.indexOf\<close>: the first index holding the value (\<open>===\<close>), or \<open>-1\<close>.\<close>

fun indexOf_from :: "'a list \<Rightarrow> 'a \<Rightarrow> nat \<Rightarrow> int" where
  "indexOf_from [] x i = - 1"
| "indexOf_from (y # ys) x i = (if y = x then int i else indexOf_from ys x (Suc i))"

definition indexOf :: "'a list \<Rightarrow> 'a \<Rightarrow> int" where
  "indexOf xs x = indexOf_from xs x 0"

section \<open>The configuration: constructor \<open>EA\<close>\<close>

definition toUpperCase_char :: "char \<Rightarrow> char" where
  "toUpperCase_char c =
     (case map_of (zip ''abcdefghijklmnopqrstuvwxyz'' ''ABCDEFGHIJKLMNOPQRSTUVWXYZ'') c of
        Some u \<Rightarrow> u
      | None \<Rightarrow> c)"

definition toUpperCase :: "string \<Rightarrow> string" where
  "toUpperCase s = map toUpperCase_char s"

record ea =
  ea_variables :: "key list"
  interval :: "real list"
  number_coding :: string
  fitnessFunction :: "jsobject \<Rightarrow> real"
  variable_individual_length :: bool

datatype variables_arg = VarArray "key list" | VarSingle key

record ea_options =
  variableIndividualLength :: bool

text \<open>
  \<open>EA(variables, interval, number_coding, fitnessFunction, options)\<close>. An argument that
  may be missing or of the wrong kind is an \<open>option\<close>: \<open>interval = None\<close> is a value
  that is not an array, \<open>number_coding = None\<close> is \<open>undefined\<close> (the argument
  omitted), \<open>fitnessFunction = None\<close> is a value that is not a function. The checks
  run in the order of the source; \<open>number_coding.toUpperCase()\<close> on \<open>undefined\<close>
  throws a \<open>TypeError\<close> before \<open>|| 'INT'\<close> is reached.
\<close>

definition EA :: "variables_arg \<Rightarrow> real list option \<Rightarrow> string option \<Rightarrow>
    (jsobject \<Rightarrow> real) option \<Rightarrow> ea_options option \<Rightarrow> error + ea" where
  "EA variables_a interval_a number_coding_a fitnessFunction_a options =
     (let vars = (case variables_a of VarArray vs \<Rightarrow> [] @ vs | VarSingle v \<Rightarrow> [] @ [v]) in
      case interval_a of
        None \<Rightarrow> Inl (Error ''Interval must be array with min and max value.'')
      | Some iv \<Rightarrow>
          if length iv \<noteq> 2 then Inl (Error ''Interval must be array with min and max value.'')
          else
            (case number_coding_a of
               None \<Rightarrow> Inl (TypeError ''Cannot read property toUpperCase of undefined'')
             | Some nc \<Rightarrow>
                 let coding = (if toUpperCase nc = [] then ''INT'' else toUpperCase nc) in
                 (case fitnessFunction_a of
                    None \<Rightarrow> Inl (Error ''Fitness function must be valid function.'')
                  | Some ff \<Rightarrow>
                      Inr \<lparr> ea_variables = vars, interval = iv, number_coding = coding,
                            fitnessFunction = ff,
                            variable_individual_length =
                              (case options of None \<Rightarrow> False
                               | Some opts \<Rightarrow> variableIndividualLength opts) \<rparr>)))"

section \<open>Populations\<close>

record population =
  algorithm :: ea
  individuals :: aref

text \<open>\<open>new EAPopulation(algorithm)\<close> allocates the empty array \<open>this.individuals\<close>.\<close>

definition EAPopulation :: "ea \<Rightarrow> world \<Rightarrow> population \<times> world" where
  "EAPopulation alg w =
     (\<lparr> algorithm = alg, individuals = next_aref w \<rparr>,
      w\<lparr> arrs := (arrs w)(next_aref w := []), next_aref := Suc (next_aref w) \<rparr>)"

definition count :: "world \<Rightarrow> population \<Rightarrow> nat" where
  "count w p = length (arrs w (individuals p))"

text \<open>\<open>push\<close> appends to the population's array in place.\<close>

definition push :: "world \<Rightarrow> population \<Rightarrow> iref \<Rightarrow> world" where
  "push w p r = w\<lparr> arrs := (arrs w)((individuals p) := arrs w (individuals p) @ [r]) \<rparr>"

definition hasIndividual :: "world \<Rightarrow> population \<Rightarrow> iref \<Rightarrow> bool" where
  "hasIndividual w p individual_r = (indexOf (arrs w (individuals p)) individual_r \<noteq> - 1)"

section \<open>Arrays: sorting and slicing\<close>

text \<open>
  Every sort of the source uses the comparator
  \<open>function(a, b) { return b.fitness - a.fitness; }\<close>, of which the sort reads the
  sign. The sign of a difference of two finite doubles is the sign of the exact
  difference, so the comparator is the exact difference.
\<close>

definition by_fitness_desc :: "(iref \<Rightarrow> individual) \<Rightarrow> iref \<Rightarrow> iref \<Rightarrow> real" where
  "by_fitness_desc h a b = fitness (h b) - fitness (h a)"

text \<open>
  \<open>Array.prototype.sort(cmp)\<close>, a stable sort: an element stays before the later
  elements it compares equal to. Modelled as insertion from the right.
\<close>

fun insert_sorted :: "('a \<Rightarrow> 'a \<Rightarrow> real) \<Rightarrow> 'a \<Rightarrow> 'a list \<Rightarrow> 'a list" where
  "insert_sorted cmp x [] = [x]"
| "insert_sorted cmp x (y # ys) =
     (if cmp x y \<le> 0 then x # y # ys else y # insert_sorted cmp x ys)"

definition js_sort :: "('a \<Rightarrow> 'a \<Rightarrow> real) \<Rightarrow> 'a list \<Rightarrow> 'a list" where
  "js_sort cmp xs = foldr (insert_sorted cmp) xs []"

text \<open>\<open>xs.slice(0, e)\<close>: a negative \<open>e\<close> counts from the end of the array.\<close>

definition slice0 :: "'a list \<Rightarrow> int \<Rightarrow> 'a list" where
  "slice0 xs e = (if e < 0 then take (nat (int (length xs) + e)) xs else take (nat e) xs)"

text \<open>Sorting an array object in place, and allocating a new array object.\<close>

definition array_sort :: "world \<Rightarrow> aref \<Rightarrow> world" where
  "array_sort w a = w\<lparr> arrs := (arrs w)(a := js_sort (by_fitness_desc (inds w)) (arrs w a)) \<rparr>"

definition new_array :: "world \<Rightarrow> iref list \<Rightarrow> aref \<times> world" where
  "new_array w xs =
     (next_aref w, w\<lparr> arrs := (arrs w)(next_aref w := xs), next_aref := Suc (next_aref w) \<rparr>)"

section \<open>Replacement\<close>

record replacement_options =
  newGenerationSize :: "int option"
  generationGap :: "int option"

text \<open>\<open>(options && options.field) || dflt\<close> for a numeric option.\<close>

definition option_or :: "'o option \<Rightarrow> ('o \<Rightarrow> int option) \<Rightarrow> int \<Rightarrow> int" where
  "option_or options field dflt =
     (case options of
        None \<Rightarrow> dflt
      | Some opts \<Rightarrow> (case field opts of None \<Rightarrow> dflt | Some v \<Rightarrow> if v = 0 then dflt else v))"

text \<open>
  \<open>replacement(parents, children, method, options)\<close>. \<open>parents\<close> and \<open>children\<close> are
  references to the caller's arrays. The result is the world after the call and the
  population with its \<open>individuals\<close> field reassigned.
\<close>

definition replacement :: "world \<Rightarrow> population \<Rightarrow> aref \<Rightarrow> aref \<Rightarrow> string \<Rightarrow>
    replacement_options option \<Rightarrow> world \<times> population" where
  "replacement w p parents children method options =
     (let individuals_length = int (length (arrs w (individuals p))) in
      if method = ''comma_strategy'' then
        (let size = option_or options newGenerationSize individuals_length;
             w1 = array_sort w children;
             (a, w2) = new_array w1 (slice0 (arrs w1 children) size)
         in (w2, p\<lparr> individuals := a \<rparr>))
      else if method = ''separate_competition'' then
        (let gap = option_or options generationGap 0;
             num_parents = individuals_length - gap;
             w1 = array_sort w parents;
             (parents', w2) = new_array w1 (slice0 (arrs w1 parents) num_parents);
             w3 = array_sort w2 children;
             (kept, w4) = new_array w3 (slice0 (arrs w3 children) gap);
             (a, w5) = new_array w4 (arrs w4 parents' @ arrs w4 kept)
         in (w5, p\<lparr> individuals := a \<rparr>))
      else if method = ''plus_strategy'' then
        (let size = option_or options newGenerationSize individuals_length;
             (plus, w1) = new_array w (arrs w parents @ arrs w children);
             w2 = array_sort w1 plus;
             (a, w3) = new_array w2 (slice0 (arrs w2 plus) size)
         in (w3, p\<lparr> individuals := a \<rparr>))
      else (w, p\<lparr> individuals := children \<rparr>))"

section \<open>Constructing individuals\<close>

text \<open>\<open>Math.random()\<close>: the sequence of draws. Draw number \<open>c\<close> is \<open>rnd c\<close>.\<close>

type_synonym random_source = "nat \<Rightarrow> real"

text \<open>
  A \<open>generateFunction(variable, v)\<close>: given the key and its position it returns the
  value, and it may draw. The third argument is the number of draws consumed so far.
\<close>

type_synonym generator = "key \<Rightarrow> nat \<Rightarrow> nat \<Rightarrow> jsnumber \<times> nat"

text \<open>The loop of the constructor \<open>EAIndividual\<close> over the variable keys.\<close>

fun fill_variables :: "generator \<Rightarrow> key list \<Rightarrow> nat \<Rightarrow> jsobject \<Rightarrow> nat \<Rightarrow> jsobject \<times> nat" where
  "fill_variables g [] v obj c = (obj, c)"
| "fill_variables g (variable # rest) v obj c =
     (let (x, c') = g variable v c in fill_variables g rest (Suc v) (obj_put variable x obj) c')"

text \<open>
  \<open>new EAIndividual(variables, generateFunction, fitnessFunction)\<close>: the new object is
  allocated at the next free reference; the fitness function sees the object's variables.
\<close>

definition EAIndividual :: "key list \<Rightarrow> generator \<Rightarrow> (jsobject \<Rightarrow> real) \<Rightarrow> world \<Rightarrow> nat \<Rightarrow>
    iref \<times> world \<times> nat" where
  "EAIndividual vars g ff w c =
     (let (obj, c') = fill_variables g vars 0 [] c;
          r = next_iref w
      in (r, w\<lparr> inds := (inds w)(r := \<lparr> variables = obj, fitness = ff obj \<rparr>),
                next_iref := Suc r \<rparr>, c'))"

text \<open>\<open>toArray()\<close>: the values in key order.\<close>

definition toArray :: "individual \<Rightarrow> jsnumber list" where
  "toArray ind = map snd (variables ind)"

section \<open>Initialising a population\<close>

text \<open>
  \<open>(Math.random() * (interval[1] - interval[0])) + interval[0]\<close> for the draw \<open>r\<close> and
  the interval \<open>[lo, hi]\<close>: a difference, a product and a sum, each rounded.
\<close>

definition scaled_draw :: "rounding \<Rightarrow> real \<Rightarrow> real \<Rightarrow> real \<Rightarrow> jsnumber" where
  "scaled_draw fl lo hi r =
     js_add fl (js_mul fl (Finite r) (js_sub fl (Finite hi) (Finite lo))) (Finite lo)"

text \<open>
  The generator of \<open>initializePopulation\<close>: one draw, scaled to the interval, rounded
  to an integer with \<open>Math.round\<close> when the coding is \<open>'INT'\<close>.
\<close>

definition generateIndividualFunction :: "rounding \<Rightarrow> ea \<Rightarrow> random_source \<Rightarrow> generator" where
  "generateIndividualFunction fl alg rnd variable v c =
     (let x = scaled_draw fl (interval alg ! 0) (interval alg ! 1) (rnd c) in
      (if number_coding alg = ''INT'' then n_round x else x, Suc c))"

definition max_individual_length :: real where
  "max_individual_length = 100"

text \<open>
  The variable keys of the next individual. With variable-length individuals they are
  \<open>0 \<dots> len - 1\<close> for \<open>len = Math.round(Math.random() * max_individual_length)\<close>, and
  \<open>new Array(len)\<close> throws unless \<open>len\<close> is an array length.
\<close>

definition next_variables :: "rounding \<Rightarrow> ea \<Rightarrow> random_source \<Rightarrow> nat \<Rightarrow> error + key list \<times> nat" where
  "next_variables fl alg rnd c =
     (if variable_individual_length alg
      then (case array_length (n_round (js_mul fl (Finite (rnd c)) (Finite max_individual_length))) of
              None \<Rightarrow> Inl (RangeError ''Invalid array length'')
            | Some len \<Rightarrow> Inr (map Pos [0..<len], Suc c))
      else Inr (ea_variables alg, c))"

text \<open>The loop \<open>while(population.count < n)\<close>.\<close>

function populate :: "rounding \<Rightarrow> ea \<Rightarrow> random_source \<Rightarrow> int \<Rightarrow> population \<Rightarrow> world \<Rightarrow> nat \<Rightarrow>
    error + world \<times> nat" where
  "populate fl alg rnd n p w c =
     (if int (count w p) < n then
        (case next_variables fl alg rnd c of
           Inl e \<Rightarrow> Inl e
         | Inr (vars, c1) \<Rightarrow>
             (let (r, w1, c2) =
                    EAIndividual vars (generateIndividualFunction fl alg rnd) (fitnessFunction alg)
                      w c1
              in populate fl alg rnd n p (push w1 p r) c2))
      else Inr (w, c))"
  by pat_completeness auto
termination
  by (relation "measure (\<lambda>(fl, alg, rnd, n, p, w, c). nat (n - int (count w p)))")
     (auto simp: count_def push_def EAIndividual_def Let_def split: prod.splits if_splits)

declare populate.simps [simp del]

text \<open>
  \<open>initializePopulation(method, n)\<close>: every \<open>method\<close> selects the random generator
  (the \<open>switch\<close> has the single arm \<open>default: case 'random':\<close>).
\<close>

definition initializePopulation :: "rounding \<Rightarrow> ea \<Rightarrow> string \<Rightarrow> int \<Rightarrow> random_source \<Rightarrow> world \<Rightarrow> nat \<Rightarrow>
    error + population \<times> world \<times> nat" where
  "initializePopulation fl alg method n rnd w c =
     (let (p, w0) = EAPopulation alg w in
      if n > 0 then
        (case populate fl alg rnd n p w0 c of
           Inl e \<Rightarrow> Inl e
         | Inr (w1, c1) \<Rightarrow> Inr (p, w1, c1))
      else Inr (p, w0, c))"

section \<open>Genetic operators\<close>

record mutation_options =
  number_of_mutated_values :: "nat option"

text \<open>\<open>(options && options.number_of_mutated_values) || 1\<close>.\<close>

definition mutated_values :: "mutation_options option \<Rightarrow> nat" where
  "mutated_values options =
     (case options of
        None \<Rightarrow> 1
      | Some opts \<Rightarrow>
          (case number_of_mutated_values opts of None \<Rightarrow> 1 | Some v \<Rightarrow> if v = 0 then 1 else v))"

text \<open>
  The two value functions \<open>f\<close> of the mutation family of the current revision
  (\<open>src/unnamed/part_000\<close>, from line 840): the extremal one returns a bound of the
  interval, the uniform one a scaled draw; both round to an integer under the coding
  \<open>'INT'\<close>.
\<close>

definition extremal_f :: "ea \<Rightarrow> random_source \<Rightarrow> nat \<Rightarrow> jsnumber \<times> nat" where
  "extremal_f alg rnd c =
     (let x = Finite (if rnd c > 1 / 2 then interval alg ! 1 else interval alg ! 0) in
      (if number_coding alg = ''INT'' then n_round x else x, Suc c))"

definition uniform_f :: "rounding \<Rightarrow> ea \<Rightarrow> random_source \<Rightarrow> nat \<Rightarrow> jsnumber \<times> nat" where
  "uniform_f fl alg rnd c =
     (let x = scaled_draw fl (interval alg ! 0) (interval alg ! 1) (rnd c) in
      (if number_coding alg = ''INT'' then n_round x else x, Suc c))"

text \<open>
  The \<open>switch\<close> on the method: \<open>case 'extremal_mutation'\<close> assigns \<open>f\<close> and falls
  through into \<open>default: case 'uniform_mutation'\<close>, which assigns \<open>f\<close> again without
  a test. The variable \<open>f\<close> is declared without a value (\<open>None\<close>).
\<close>

definition mutation_f :: "rounding \<Rightarrow> string \<Rightarrow> ea \<Rightarrow> random_source \<Rightarrow>
    (nat \<Rightarrow> jsnumber \<times> nat) option" where
  "mutation_f fl method alg rnd =
     (let f = None;
          f = (if method = ''extremal_mutation'' then Some (extremal_f alg rnd) else f);
          f = Some (uniform_f fl alg rnd)
      in f)"

text \<open>The loop filling \<open>pos\<close>: \<open>pos[j] = Math.floor(Math.random() * variables_length)\<close>.\<close>

fun draw_positions :: "rounding \<Rightarrow> random_source \<Rightarrow> nat \<Rightarrow> nat \<Rightarrow> nat \<Rightarrow> jsnumber list \<times> nat" where
  "draw_positions fl rnd 0 variables_length c = ([], c)"
| "draw_positions fl rnd (Suc j) variables_length c =
     (let (pos, c') = draw_positions fl rnd j variables_length (Suc c)
      in (n_floor (js_mul fl (Finite (rnd c)) (Finite (real variables_length))) # pos, c'))"

text \<open>
  \<open>current_individual_data[variable]\<close>. The generator below is only called with the
  object's own keys, so the key is always found.
\<close>

definition obj_get :: "jsobject \<Rightarrow> key \<Rightarrow> jsnumber" where
  "obj_get obj k = (case map_of obj k of Some v \<Rightarrow> v | None \<Rightarrow> Finite 0)"

text \<open>
  The \<open>generateFunction(variable, k)\<close> of the uniform and extremal mutation: it draws
  the \<open>n\<close> positions at every call, that is once for every variable of the child.
\<close>

definition mutation_generateFunction :: "rounding \<Rightarrow> (nat \<Rightarrow> jsnumber \<times> nat) option \<Rightarrow>
    random_source \<Rightarrow> nat \<Rightarrow> jsobject \<Rightarrow> generator" where
  "mutation_generateFunction fl f rnd n current_individual_data variable k c =
     (let variables_length = length (Object_keys current_individual_data);
          (pos, c1) = draw_positions fl rnd n variables_length c
      in if indexOf pos (Finite (real k)) \<noteq> - 1
         then (case f of Some f' \<Rightarrow> f' c1 | None \<Rightarrow> (Finite 0, c1))
         else (obj_get current_individual_data variable, c1))"

text \<open>The loop \<open>children[i] = new EAIndividual(getVariables(i), generateFunction, fitnessFunction)\<close>.\<close>

fun make_children :: "rounding \<Rightarrow> (nat \<Rightarrow> jsnumber \<times> nat) option \<Rightarrow> (jsobject \<Rightarrow> real) \<Rightarrow>
    random_source \<Rightarrow> nat \<Rightarrow> iref list \<Rightarrow> world \<Rightarrow> nat \<Rightarrow> iref list \<times> world \<times> nat" where
  "make_children fl f ff rnd n [] w c = ([], w, c)"
| "make_children fl f ff rnd n (parent # rest) w c =
     (let current_individual_data = variables (inds w parent);
          (child, w1, c1) =
             EAIndividual (Object_keys current_individual_data)
               (mutation_generateFunction fl f rnd n current_individual_data) ff w c;
          (children, w2, c2) = make_children fl f ff rnd n rest w1 c1
      in (child # children, w2, c2))"

definition variable_length_operators :: "string set" where
  "variable_length_operators =
     {''shrink_mutation'', ''growth_mutation'', ''swap_mutation'', ''replace_mutation''}"

text \<open>
  \<open>applyGeneticOperators(parents, method, options)\<close> of the current revision.
  \<open>parents = None\<close> is a falsy argument (\<open>undefined\<close>, \<open>null\<close>). The result is the
  new \<open>children\<close> array, the world with the children allocated, and the draw counter.
  The four splice-based operators on variable-length individuals are not part of this
  embedding: for their method names the model gives \<open>None\<close> and says nothing. Every
  other method name, known or not, runs the code after \<open>default:\<close>.
\<close>

definition applyGeneticOperators :: "rounding \<Rightarrow> world \<Rightarrow> population \<Rightarrow> iref list option \<Rightarrow> string \<Rightarrow>
    mutation_options option \<Rightarrow> random_source \<Rightarrow> nat \<Rightarrow> (iref list \<times> world \<times> nat) option" where
  "applyGeneticOperators fl w p parents method options rnd c =
     (case parents of
        None \<Rightarrow> Some ([], w, c)
      | Some ps \<Rightarrow>
          if length ps = 0 then Some ([], w, c)
          else if method \<in> variable_length_operators then None
          else
            (let alg = algorithm p;
                 f = mutation_f fl method alg rnd;
                 n = mutated_values options
             in Some (make_children fl f (fitnessFunction alg) rnd n ps w c)))"

subsection \<open>The first revision, \<open>src/ea.js\<close>\<close>






section \<open>Selecting parents\<close>

subsection \<open>Random and best\<close>

text \<open>\<open>xs[a]\<close> for a number \<open>a\<close>: \<open>undefined\<close> unless \<open>a\<close> is an index of the array.\<close>

definition read_at_number :: "iref list \<Rightarrow> jsnumber \<Rightarrow> slot" where
  "read_at_number xs a =
     (case array_index a of Some i \<Rightarrow> read_at xs (int i) | None \<Rightarrow> Undefined)"

text \<open>
  The loop of \<open>getRandomParents\<close>:
  \<open>parents[i] = individuals[Math.floor(Math.random() * individuals_length)]\<close>.
\<close>

function random_loop :: "rounding \<Rightarrow> iref list \<Rightarrow> random_source \<Rightarrow> nat \<Rightarrow> nat \<Rightarrow> slot list \<Rightarrow> nat \<Rightarrow>
    slot list \<times> nat" where
  "random_loop fl individuals_a rnd n i parents c =
     (if i < n then
        (let index = n_floor (js_mul fl (Finite (rnd c)) (Finite (real (length individuals_a))))
         in random_loop fl individuals_a rnd n (Suc i)
              (write_at parents i (read_at_number individuals_a index)) (Suc c))
      else (parents, c))"
  by pat_completeness auto
termination
  by (relation "measure (\<lambda>(fl, individuals_a, rnd, n, i, parents, c). n - i)") auto

declare random_loop.simps [simp del]

definition getRandomParents :: "rounding \<Rightarrow> iref list \<Rightarrow> nat \<Rightarrow> random_source \<Rightarrow> nat \<Rightarrow>
    slot list \<times> nat" where
  "getRandomParents fl individuals_a n rnd c =
     random_loop fl individuals_a rnd n 0 (replicate n Hole) c"

text \<open>\<open>getBestParents\<close> sorts a copy of the array.\<close>

definition getBestParents :: "(iref \<Rightarrow> individual) \<Rightarrow> iref list \<Rightarrow> nat \<Rightarrow> iref list" where
  "getBestParents h individuals_a n = slice0 (js_sort (by_fitness_desc h) individuals_a) (int n)"

subsection \<open>Roulette\<close>

text \<open>
  \<open>fitnessValues[j]\<close>: a read past the end of the array, or of a hole, gives
  \<open>undefined\<close>, which every use here turns into \<open>NaN\<close>.
\<close>

definition num_read :: "jsnumber list \<Rightarrow> nat \<Rightarrow> jsnumber" where
  "num_read xs j = (if j < length xs then xs ! j else NaN)"

definition num_write :: "jsnumber list \<Rightarrow> nat \<Rightarrow> jsnumber \<Rightarrow> jsnumber list" where
  "num_write xs j v =
     (if j < length xs then xs[j := v] else xs @ replicate (j - length xs) NaN @ [v])"

text \<open>
  \<open>while(f < roulette_position) f += weights[j++];\<close> The comparison with \<open>NaN\<close> is
  false, so the loop ends at the latest after the first read past the end.
\<close>

function walk :: "rounding \<Rightarrow> jsnumber list \<Rightarrow> jsnumber \<Rightarrow> jsnumber \<Rightarrow> nat \<Rightarrow> jsnumber \<times> nat" where
  "walk fl weights roulette_position f j =
     (if n_less f roulette_position
      then walk fl weights roulette_position (js_add fl f (num_read weights j)) (Suc j)
      else (f, j))"
  by pat_completeness auto
termination
  by (relation "measure (\<lambda>(fl, weights, roulette_position, f, j).
        if f = NaN then 0 else Suc (length weights - j))")
     (auto simp: num_read_def split: jsnumber.splits if_splits elim: n_less.elims)

declare walk.simps [simp del]

text \<open>\<open>individuals.reduce(\<dots> a.fitness + Math.max(0, b.fitness) \<dots>, {fitness: 0}).fitness\<close>.\<close>

definition roulette_sum :: "rounding \<Rightarrow> (iref \<Rightarrow> individual) \<Rightarrow> iref list \<Rightarrow> jsnumber" where
  "roulette_sum fl h individuals_a =
     foldl (\<lambda>a b. js_add fl a (Finite (max 0 (fitness (h b))))) (Finite 0) individuals_a"

text \<open>The same with \<open>Math.max(0, b.fitness) % 1\<close>.\<close>

definition remainder_sum :: "rounding \<Rightarrow> (iref \<Rightarrow> individual) \<Rightarrow> iref list \<Rightarrow> jsnumber" where
  "remainder_sum fl h individuals_a =
     foldl (\<lambda>a b. js_add fl a (n_mod1 (Finite (max 0 (fitness (h b)))))) (Finite 0) individuals_a"

text \<open>The deterministic copies of the remainder methods: \<open>parents[i] = individual\<close>, \<open>i++\<close>.\<close>

fun copy_loop :: "iref \<Rightarrow> nat \<Rightarrow> slot list \<Rightarrow> nat \<Rightarrow> slot list \<times> nat" where
  "copy_loop individual_r 0 parents i = (parents, i)"
| "copy_loop individual_r (Suc k) parents i =
     copy_loop individual_r k (write_at parents i (Ref individual_r)) (Suc i)"

fun whole_copies :: "(iref \<Rightarrow> individual) \<Rightarrow> iref list \<Rightarrow> slot list \<Rightarrow> nat \<Rightarrow> slot list \<times> nat" where
  "whole_copies h [] parents i = (parents, i)"
| "whole_copies h (individual_r # rest) parents i =
     (let wholePart = nat \<lfloor>max 0 (fitness (h individual_r))\<rfloor>;
          (parents', i') = copy_loop individual_r wholePart parents i
      in whole_copies h rest parents' i')"

text \<open>
  The final loop of \<open>getParentsFromRoulette\<close>. \<open>without\<close> says whether the
  \<open>replacement\<close> function of the two without-replacement methods is installed; it is
  called with the index \<open>j\<close> the walk stopped at.
\<close>

function roulette_loop :: "rounding \<Rightarrow> iref list \<Rightarrow> bool \<Rightarrow> random_source \<Rightarrow> nat \<Rightarrow> nat \<Rightarrow>
    slot list \<Rightarrow> jsnumber \<Rightarrow> jsnumber list \<Rightarrow> nat \<Rightarrow> slot list \<times> nat" where
  "roulette_loop fl individuals_a without rnd n i parents rouletteSize fitnessValues c =
     (if i < n then
        (let roulette_position = js_mul fl (Finite (rnd c)) rouletteSize;
             (f, j) = walk fl fitnessValues roulette_position (Finite 0) 0;
             parents' = write_at parents i (read_at individuals_a (int j - 1));
             (rouletteSize', fitnessValues') =
               (if without
                then (js_sub fl rouletteSize (Finite 1),
                      num_write fitnessValues j
                        (n_max0 (js_sub fl (num_read fitnessValues j) (Finite 1))))
                else (rouletteSize, fitnessValues))
         in roulette_loop fl individuals_a without rnd n (Suc i) parents' rouletteSize'
              fitnessValues' (Suc c))
      else (parents, c))"
  by pat_completeness auto
termination
  by (relation "measure (\<lambda>(fl, individuals_a, without, rnd, n, i, parents, rouletteSize,
        fitnessValues, c). n - i)") auto

declare roulette_loop.simps [simp del]

text \<open>
  The array \<open>keys\<close> of the method \<open>'univerzal'\<close>: its elements are indices of
  \<open>individuals\<close>, or \<open>undefined\<close> (\<open>None\<close>) once the shuffle has read outside the
  array. \<open>keys[b]\<close> and \<open>keys[b] = v\<close> for a number \<open>b\<close>: an assignment past the end
  extends the array, one to a property that is not an index leaves the elements alone.
\<close>

definition key_read :: "nat option list \<Rightarrow> int \<Rightarrow> nat option" where
  "key_read keys i = (if 0 \<le> i \<and> i < int (length keys) then keys ! nat i else None)"

definition key_read_number :: "nat option list \<Rightarrow> jsnumber \<Rightarrow> nat option" where
  "key_read_number keys b =
     (case array_index b of Some i \<Rightarrow> key_read keys (int i) | None \<Rightarrow> None)"

definition key_write :: "nat option list \<Rightarrow> nat \<Rightarrow> nat option \<Rightarrow> nat option list" where
  "key_write keys i v =
     (if i < length keys then keys[i := v] else keys @ replicate (i - length keys) None @ [v])"

definition key_write_number :: "nat option list \<Rightarrow> jsnumber \<Rightarrow> nat option \<Rightarrow> nat option list" where
  "key_write_number keys b v =
     (case array_index b of Some i \<Rightarrow> key_write keys i v | None \<Rightarrow> keys)"

text \<open>
  The shuffle of \<open>keys\<close> under \<open>shuffleOrder\<close>; \<open>len\<close> is the length of \<open>keys\<close> when
  the loop starts.
\<close>

function shuffle_keys :: "rounding \<Rightarrow> random_source \<Rightarrow> nat \<Rightarrow> nat option list \<Rightarrow> nat \<Rightarrow> nat \<Rightarrow>
    nat option list \<times> nat" where
  "shuffle_keys fl rnd len keys a c =
     (if a < len then
        (let b = js_add fl (Finite (real a))
                   (n_round (js_mul fl (Finite (rnd c)) (Finite (real (len - a - 1)))));
             temp = key_read keys (int a);
             keys1 = key_write keys a (key_read_number keys b);
             keys2 = key_write_number keys1 b temp
         in shuffle_keys fl rnd len keys2 (Suc a) (Suc c))
      else (keys, c))"
  by pat_completeness auto
termination
  by (relation "measure (\<lambda>(fl, rnd, len, keys, a, c). len - a)") auto

declare shuffle_keys.simps [simp del]

text \<open>
  The selection loop of the method \<open>'univerzal'\<close>: \<open>f\<close> and \<open>j\<close> are kept from one
  pointer to the next, and the pointer advances by a rounded addition. \<open>weights\<close> is
  the list of the \<open>Math.max(0, fitnessValues[keys[j]])\<close> in the order of \<open>keys\<close>.
\<close>

function universal_loop :: "rounding \<Rightarrow> iref list \<Rightarrow> nat option list \<Rightarrow> jsnumber list \<Rightarrow> jsnumber \<Rightarrow>
    nat \<Rightarrow> nat \<Rightarrow> slot list \<Rightarrow> jsnumber \<Rightarrow> jsnumber \<Rightarrow> nat \<Rightarrow> slot list" where
  "universal_loop fl individuals_a keys weights pointerStep n i parents roulette_position f j =
     (if i < n then
        (let (f', j') = walk fl weights roulette_position f j;
             parents' = write_at parents i
               (case key_read keys (int j' - 1) of
                  None \<Rightarrow> Undefined
                | Some k \<Rightarrow> read_at individuals_a (int k))
         in universal_loop fl individuals_a keys weights pointerStep n (Suc i) parents'
              (js_add fl roulette_position pointerStep) f' j')
      else parents)"
  by pat_completeness auto
termination
  by (relation "measure (\<lambda>(fl, individuals_a, keys, weights, pointerStep, n, i, parents,
        roulette_position, f, j). n - i)") auto

declare universal_loop.simps [simp del]

text \<open>
  \<open>getParentsFromRoulette(individuals, method, n, shuffleOrder)\<close>. The \<open>switch\<close> knows
  the names \<open>'with_replacement'\<close>, \<open>'without_replacement'\<close>,
  \<open>'remainder_with_replacement'\<close>, \<open>'remainder_without_replacement'\<close> and
  \<open>'univerzal'\<close>; every other name runs the first arm (\<open>default:\<close>).
\<close>

definition getParentsFromRoulette :: "rounding \<Rightarrow> (iref \<Rightarrow> individual) \<Rightarrow> iref list \<Rightarrow> string \<Rightarrow>
    nat \<Rightarrow> bool \<Rightarrow> random_source \<Rightarrow> nat \<Rightarrow> slot list \<times> nat" where
  "getParentsFromRoulette fl h individuals_a method n shuffleOrder_a rnd c =
     (let fitnessValues = map (\<lambda>individual_r. Finite (max 0 (fitness (h individual_r)))) individuals_a;
          parents = replicate n Hole;
          without = (method = ''without_replacement'' \<or> method = ''remainder_without_replacement'')
      in
      if method = ''remainder_with_replacement'' \<or> method = ''remainder_without_replacement'' then
        (let (parents1, i) = whole_copies h individuals_a parents 0;
             rouletteSize = remainder_sum fl h individuals_a
         in if n_is_zero rouletteSize then (parents1, c)
            else
              (let fitnessValues1 = map (\<lambda>v. n_mod1 (n_max0 v)) fitnessValues
               in roulette_loop fl individuals_a without rnd n i parents1 rouletteSize
                    fitnessValues1 c))
      else if method = ''univerzal'' then
        (let (keys, c1) =
               (if shuffleOrder_a
                then shuffle_keys fl rnd (length individuals_a)
                       (map Some [0..<length individuals_a]) 0 c
                else (map Some [0..<length individuals_a], c));
             rouletteSize = roulette_sum fl h individuals_a
         in if n_is_zero rouletteSize then ([], c1)
            else
              (let pointerStep = js_div fl rouletteSize (Finite (real n));
                   roulette_position = js_mul fl (Finite (rnd c1)) pointerStep;
                   weights = map (\<lambda>k. case k of None \<Rightarrow> NaN
                                       | Some k' \<Rightarrow> n_max0 (num_read fitnessValues k')) keys
               in (universal_loop fl individuals_a keys weights pointerStep n 0 parents
                     roulette_position (Finite 0) 0, Suc c1)))
      else
        (let rouletteSize = roulette_sum fl h individuals_a
         in if n_is_zero rouletteSize then ([], c)
            else roulette_loop fl individuals_a without rnd n 0 parents rouletteSize
                   fitnessValues c))"

subsection \<open>\<open>getParents\<close>\<close>

record selection_options =
  rouletteMethod :: "string option"
  shuffleOrder :: bool

text \<open>\<open>options.rouletteMethod || 'with_replacement'\<close>.\<close>

definition roulette_method :: "selection_options \<Rightarrow> string" where
  "roulette_method opts =
     (case rouletteMethod opts of
        None \<Rightarrow> ''with_replacement''
      | Some m \<Rightarrow> if m = [] then ''with_replacement'' else m)"

text \<open>
  \<open>getParents(method, n, options)\<close>; \<open>n\<close> is an array length. With the method
  \<open>'roulette'\<close> a missing \<open>options\<close> object makes \<open>options.rouletteMethod\<close> throw.
\<close>

definition getParents :: "rounding \<Rightarrow> world \<Rightarrow> population \<Rightarrow> string \<Rightarrow> nat \<Rightarrow>
    selection_options option \<Rightarrow> random_source \<Rightarrow> nat \<Rightarrow> error + slot list \<times> nat" where
  "getParents fl w p method n options rnd c =
     (let individuals_a = arrs w (individuals p) in
      if method = ''best'' then Inr (map Ref (getBestParents (inds w) individuals_a n), c)
      else if method = ''roulette'' then
        (case options of
           None \<Rightarrow> Inl (TypeError ''Cannot read property rouletteMethod of undefined'')
         | Some opts \<Rightarrow>
             Inr (getParentsFromRoulette fl (inds w) individuals_a (roulette_method opts) n
                    (shuffleOrder opts) rnd c))
      else if method = ''random'' then Inr (getRandomParents fl individuals_a n rnd c)
      else Inr ([], c))"

section \<open>Predicates of the statements\<close>

text \<open>Every variable value of every individual of the population satisfies \<open>Q\<close>.\<close>

definition values_ok :: "(jsnumber \<Rightarrow> bool) \<Rightarrow> world \<Rightarrow> population \<Rightarrow> bool" where
  "values_ok Q w p =
     (\<forall>r\<in>set (arrs w (individuals p)). \<forall>v\<in>snd ` set (variables (inds w r)). Q v)"

text \<open>The number is finite and lies between \<open>lo\<close> and \<open>hi\<close>.\<close>

definition finite_within :: "real \<Rightarrow> real \<Rightarrow> jsnumber \<Rightarrow> bool" where
  "finite_within lo hi a = (case a of Finite v \<Rightarrow> lo \<le> v \<and> v \<le> hi | _ \<Rightarrow> False)"

text \<open>The number is an integer between \<open>lo\<close> and \<open>hi\<close>.\<close>

definition integer_within :: "int \<Rightarrow> int \<Rightarrow> jsnumber \<Rightarrow> bool" where
  "integer_within lo hi a =
     (case a of Finite v \<Rightarrow> v = of_int \<lfloor>v\<rfloor> \<and> lo \<le> \<lfloor>v\<rfloor> \<and> \<lfloor>v\<rfloor> \<le> hi | _ \<Rightarrow> False)"

text \<open>The operator \<open><=\<close>.\<close>

definition n_le :: "jsnumber \<Rightarrow> jsnumber \<Rightarrow> bool" where
  "n_le a b = (n_less a b \<or> a = b \<and> a \<noteq> NaN)"

text \<open>The clamped weights \<open>Math.max(0, fitness)\<close> of the individuals, in array order.\<close>

definition clamped_weights :: "(iref \<Rightarrow> individual) \<Rightarrow> iref list \<Rightarrow> jsnumber list" where
  "clamped_weights h individuals_a = map (\<lambda>r. Finite (max 0 (fitness (h r)))) individuals_a"

text \<open>
  The cumulative weight of the first \<open>j\<close> individuals, added up from 0 in array order
  with the additions of the code.
\<close>

fun cumulative :: "rounding \<Rightarrow> jsnumber list \<Rightarrow> nat \<Rightarrow> jsnumber" where
  "cumulative fl ws 0 = Finite 0"
| "cumulative fl ws (Suc j) = js_add fl (cumulative fl ws j) (num_read ws j)"

text \<open>
  The \<open>k\<close>-th pointer of the universal sampling: the start offset, advanced \<open>k\<close> times
  by the pointer step with the additions of the code.
\<close>

fun pointer :: "rounding \<Rightarrow> jsnumber \<Rightarrow> jsnumber \<Rightarrow> nat \<Rightarrow> jsnumber" where
  "pointer fl start pointerStep 0 = start"
| "pointer fl start pointerStep (Suc k) = js_add fl (pointer fl start pointerStep k) pointerStep"

text \<open>
  The pointer \<open>x\<close> lies in the cumulative-weight interval of the individual \<open>m\<close>, open
  below and closed above: the cumulative weight of the individuals up to \<open>m\<close> is the
  first that is not below \<open>x\<close>.
\<close>

definition in_interval :: "rounding \<Rightarrow> jsnumber list \<Rightarrow> nat \<Rightarrow> jsnumber \<Rightarrow> bool" where
  "in_interval fl ws m x \<longleftrightarrow>
     (\<forall>i\<le>m. n_less (cumulative fl ws i) x) \<and> \<not> n_less (cumulative fl ws (Suc m)) x"

text \<open>
  The reading of the specification, "the first index where the cumulative weight exceeds
  the position": the interval of \<open>m\<close> is closed below and open above.
\<close>

definition first_exceeding :: "rounding \<Rightarrow> jsnumber list \<Rightarrow> nat \<Rightarrow> jsnumber \<Rightarrow> bool" where
  "first_exceeding fl ws m x \<longleftrightarrow>
     (\<forall>i\<le>m. \<not> n_less x (cumulative fl ws i)) \<and> n_less x (cumulative fl ws (Suc m))"

text \<open>
  The deterministic copies of the remainder methods: \<open>Math.floor(Math.max(0, fitness))\<close>
  references to each individual, in array order.
\<close>

definition deterministic_copies :: "(iref \<Rightarrow> individual) \<Rightarrow> iref list \<Rightarrow> slot list" where
  "deterministic_copies h individuals_a =
     concat (map (\<lambda>r. replicate (nat \<lfloor>max 0 (fitness (h r))\<rfloor>) (Ref r)) individuals_a)"

section \<open>Concrete inputs used in the examples\<close>

fun finite_part :: "jsnumber \<Rightarrow> real" where
  "finite_part (Finite x) = x"
| "finite_part a = 0"

definition sum_fitness :: "jsobject \<Rightarrow> real" where
  "sum_fitness obj = sum_list (map (\<lambda>kv. finite_part (snd kv)) obj)"

definition ea_real :: ea where
  "ea_real = \<lparr> ea_variables = [Named ''x'', Named ''y''], interval = [0, 10],
       number_coding = ''REAL'', fitnessFunction = sum_fitness,
       variable_individual_length = False \<rparr>"

definition ea_int :: ea where
  "ea_int = ea_real \<lparr> number_coding := ''INT'' \<rparr>"

text \<open>
  A world with six individuals of fitness 1, 3, 2, 0, 2 and 5: array 0 is a population of
  the first four, array 1 a parents array, array 2 a children array.
\<close>

definition individual_of :: "real \<Rightarrow> individual" where
  "individual_of f =
     \<lparr> variables = [(Named ''x'', Finite f), (Named ''y'', Finite 0)], fitness = f \<rparr>"

definition w_ex :: world where
  "w_ex = \<lparr> inds = (\<lambda>r. individual_of (if r < 6 then [1, 3, 2, 0, 2, 5] ! r else 0)),
            next_iref = 6,
            arrs = (\<lambda>a. if a = 0 then [0, 1, 2, 3] else if a = 1 then [1]
                        else if a = 2 then [4, 5] else []),
            next_aref = 3 \<rparr>"

definition p_ex :: population where
  "p_ex = \<lparr> algorithm = ea_real, individuals = 0 \<rparr>"

text \<open>
  An empty world; a configuration with integer coding and a fractional bound; one whose
  interval is wider than the largest double.
\<close>

definition w_empty :: world where
  "w_empty = \<lparr> inds = (\<lambda>r. \<lparr> variables = [], fitness = 0 \<rparr>), next_iref = 0,
               arrs = (\<lambda>a. []), next_aref = 0 \<rparr>"

definition ea_frac :: ea where
  "ea_frac = ea_int \<lparr> interval := [0, 5 / 8] \<rparr>"

definition ea_wide :: ea where
  "ea_wide = ea_real \<lparr> ea_variables := [Named ''x''], interval := [- (2 ^ 1023), 2 ^ 1023] \<rparr>"

text \<open>
  A world whose population (array 0) has the single individual 0 of fitness 3, and one
  whose population has the individuals 0 and 1 of fitness 2 and 5.
\<close>

definition w_one :: world where
  "w_one = \<lparr> inds = (\<lambda>r. individual_of 3), next_iref = 1, arrs = (\<lambda>a. [0]),
             next_aref = 1 \<rparr>"

definition w_pair :: world where
  "w_pair = \<lparr> inds = (\<lambda>r. individual_of (if r = 0 then 2 else 5)), next_iref = 2,
              arrs = (\<lambda>a. [0, 1]), next_aref = 1 \<rparr>"

text \<open>A source of draws that starts with the given ones and continues with \<open>0.5\<close>.\<close>

definition draws_of :: "real list \<Rightarrow> random_source" where
  "draws_of xs i = (if i < length xs then xs ! i else 1 / 2)"

text \<open>The variables of the children returned by \<open>applyGeneticOperators\<close>, in order.\<close>

definition children_of :: "(iref list \<times> world \<times> nat) option \<Rightarrow> jsobject list" where
  "children_of res =
     (case res of None \<Rightarrow> [] | Some (ch, w', c') \<Rightarrow> map (\<lambda>r. variables (inds w' r)) ch)"

section \<open>Properties\<close>
lemma indexOf_from_lower: "indexOf_from xs x i = - 1 \<or> int i \<le> indexOf_from xs x i"
proof (induction xs arbitrary: i)
  case Nil
  then show ?case by simp
next
  case (Cons y ys)
  from Cons.IH [of "Suc i"] show ?case by auto
qed

lemma indexOf_from_miss: "indexOf_from xs x i = - 1 \<longleftrightarrow> x \<notin> set xs"
proof (induction xs arbitrary: i)
  case Nil
  then show ?case by simp
next
  case (Cons y ys)
  from indexOf_from_lower [of ys x "Suc i"] Cons.IH [of "Suc i"] show ?case by auto
qed

lemma indexOf_miss: "indexOf xs x = - 1 \<longleftrightarrow> x \<notin> set xs"
  by (simp add: indexOf_def indexOf_from_miss)

lemma ex_nth_iff_mem: "(\<exists>i<length xs. xs ! i = x) \<longleftrightarrow> x \<in> set xs"
  by (auto simp: in_set_conv_nth)

subsection \<open>Membership is by reference\<close>

text \<open>
  C10. \<open>hasIndividual(x)\<close> is true exactly when the reference \<open>x\<close> itself is an
  element of the population's \<open>individuals\<close> array. A reference \<open>y\<close> that is not in
  the array is not reported, even when the object it points to has the same variables
  and fitness as an element of the array.
\<close>

theorem hasIndividual_reference_identity:
  "(hasIndividual w p x \<longleftrightarrow>
      (\<exists>i<length (arrs w (individuals p)). arrs w (individuals p) ! i = x)) \<and>
   (\<forall>y z. z \<in> set (arrs w (individuals p)) \<and> y \<notin> set (arrs w (individuals p)) \<and>
        inds w y = inds w z \<longrightarrow> hasIndividual w p z \<and> \<not> hasIndividual w p y)"
  unfolding hasIndividual_def indexOf_miss ex_nth_iff_mem by blast

theorem hasIndividual_reference_identity_witness:
  "hasIndividual
     \<lparr> inds = (\<lambda>r. \<lparr> variables = [(Named ''x'', Finite 3)], fitness = 3 \<rparr>), next_iref = 2,
       arrs = (\<lambda>a. [0]), next_aref = 1 \<rparr>
     \<lparr> algorithm = ea_real, individuals = 0 \<rparr> 0 \<and>
   \<not> hasIndividual
     \<lparr> inds = (\<lambda>r. \<lparr> variables = [(Named ''x'', Finite 3)], fitness = 3 \<rparr>), next_iref = 2,
       arrs = (\<lambda>a. [0]), next_aref = 1 \<rparr>
     \<lparr> algorithm = ea_real, individuals = 0 \<rparr> 1"
  using hasIndividual_reference_identity
    [of "\<lparr> inds = (\<lambda>r. \<lparr> variables = [(Named ''x'', Finite 3)], fitness = 3 \<rparr>), next_iref = 2,
           arrs = (\<lambda>a. [0]), next_aref = 1 \<rparr>"
        "\<lparr> algorithm = ea_real, individuals = 0 \<rparr>" 0]
  by simp

subsection \<open>The encoding argument of the constructor\<close>

lemma EA_encoding_case_insensitive:
  "EA (VarArray vs) (Some [lo, hi]) (Some ''int'') (Some ff) None =
     Inr \<lparr> ea_variables = vs, interval = [lo, hi], number_coding = ''INT'',
           fitnessFunction = ff, variable_individual_length = False \<rparr>"
  "EA (VarArray vs) (Some [lo, hi]) (Some ''Real'') (Some ff) None =
     Inr \<lparr> ea_variables = vs, interval = [lo, hi], number_coding = ''REAL'',
           fitnessFunction = ff, variable_individual_length = False \<rparr>"
  "EA (VarArray vs) (Some [lo, hi]) (Some []) (Some ff) None =
     Inr \<lparr> ea_variables = vs, interval = [lo, hi], number_coding = ''INT'',
           fitnessFunction = ff, variable_individual_length = False \<rparr>"
  by (simp_all add: EA_def toUpperCase_def toUpperCase_char_def)

text \<open>
  C9. With the encoding argument omitted (\<open>undefined\<close>) and every other argument
  valid, the constructor does not build a configuration with encoding \<open>INT\<close>: it
  throws a \<open>TypeError\<close>. The default \<open>INT\<close> is reached only from the empty string.
\<close>

theorem EA_encoding_omitted_throws:
  "EA (VarArray [Named ''x'']) (Some [0, 10]) None (Some ff) opts =
     Inl (TypeError ''Cannot read property toUpperCase of undefined'')"
  by (simp add: EA_def)

subsection \<open>Sorting by descending fitness\<close>

lemma set_insert_sorted: "set (insert_sorted cmp x ys) = insert x (set ys)"
  by (induction ys) auto

lemma length_insert_sorted: "length (insert_sorted cmp x ys) = Suc (length ys)"
  by (induction ys) auto

lemma set_js_sort: "set (js_sort cmp xs) = set xs"
  by (induction xs) (auto simp: js_sort_def set_insert_sorted)

lemma length_js_sort: "length (js_sort cmp xs) = length xs"
  by (induction xs) (auto simp: js_sort_def length_insert_sorted)

lemma sorted_insert_sorted:
  assumes "sorted_wrt (\<lambda>a b. fitness (h b) \<le> fitness (h a)) ys"
  shows "sorted_wrt (\<lambda>a b. fitness (h b) \<le> fitness (h a))
           (insert_sorted (by_fitness_desc h) x ys)"
  using assms
proof (induction ys)
  case Nil
  then show ?case by simp
next
  case (Cons y ys)
  show ?case
  proof (cases "by_fitness_desc h x y \<le> 0")
    case True
    then have "fitness (h y) \<le> fitness (h x)" by (simp add: by_fitness_desc_def)
    with Cons.prems True show ?thesis by fastforce
  next
    case False
    then have "fitness (h x) \<le> fitness (h y)" by (simp add: by_fitness_desc_def)
    with Cons False show ?thesis by (auto simp: set_insert_sorted)
  qed
qed

lemma sorted_js_sort:
  "sorted_wrt (\<lambda>a b. fitness (h b) \<le> fitness (h a)) (js_sort (by_fitness_desc h) xs)"
proof (induction xs)
  case Nil
  then show ?case by (simp add: js_sort_def)
next
  case (Cons x xs)
  then show ?case using sorted_insert_sorted [of h _ x] by (simp add: js_sort_def)
qed

lemma length_slice0_nonneg: "0 \<le> e \<Longrightarrow> length (slice0 xs e) = min (nat e) (length xs)"
  by (simp add: slice0_def min_def)

lemma set_slice0: "set (slice0 xs e) \<subseteq> set xs"
  by (auto simp: slice0_def dest: in_set_takeD)

lemma sorted_wrt_slice0: "sorted_wrt R xs \<Longrightarrow> sorted_wrt R (slice0 xs e)"
  by (simp add: slice0_def)

subsection \<open>Replacement\<close>

lemma replacement_plus_strategy:
  assumes "replacement w p parents children ''plus_strategy'' options = (w', p')"
  shows "arrs w' (individuals p') =
           slice0 (js_sort (by_fitness_desc (inds w)) (arrs w parents @ arrs w children))
             (option_or options newGenerationSize (int (count w p)))"
    and "inds w' = inds w"
  using assms
  by (auto simp: replacement_def Let_def new_array_def array_sort_def count_def)

text \<open>
  C8 as stated fails: \<open>slice(0, newGenerationSize)\<close> cannot return more elements than
  \<open>parents\<close> and \<open>children\<close> hold together. Here the population has four individuals,
  \<open>parents\<close> one and \<open>children\<close> two, and the next generation has three. A
  \<open>newGenerationSize\<close> of 0 is taken for a missing one (\<open>||\<close>): the next generation
  has three individuals again, not none. A negative one counts from the end: with
  \<open>-1\<close> two individuals are kept.
\<close>

theorem plus_strategy_size_counterexample:
  "count w_ex p_ex = 4 \<and>
   length (arrs (fst (replacement w_ex p_ex 1 2 ''plus_strategy'' None))
             (individuals (snd (replacement w_ex p_ex 1 2 ''plus_strategy'' None)))) = 3 \<and>
   length (arrs (fst (replacement w_ex p_ex 1 2 ''plus_strategy''
                        (Some \<lparr> newGenerationSize = Some 0, generationGap = None \<rparr>)))
             (individuals (snd (replacement w_ex p_ex 1 2 ''plus_strategy''
                        (Some \<lparr> newGenerationSize = Some 0, generationGap = None \<rparr>))))) = 3 \<and>
   length (arrs (fst (replacement w_ex p_ex 1 2 ''plus_strategy''
                        (Some \<lparr> newGenerationSize = Some (- 1), generationGap = None \<rparr>)))
             (individuals (snd (replacement w_ex p_ex 1 2 ''plus_strategy''
                        (Some \<lparr> newGenerationSize = Some (- 1), generationGap = None \<rparr>))))) = 2"
  by (simp add: replacement_def w_ex_def p_ex_def option_or_def array_sort_def new_array_def
      js_sort_def by_fitness_desc_def individual_of_def slice0_def count_def)

text \<open>
  C8, amended. Let \<open>s\<close> be the \<open>newGenerationSize\<close> of the options when it is
  positive, and the population size before the call when there are no options, no
  \<open>newGenerationSize\<close>, or a \<open>newGenerationSize\<close> of 0. After
  \<open>replacement(parents, children, "plus_strategy", options)\<close> the population's
  individuals number \<open>min(s, |parents| + |children|)\<close>, all of them come from
  \<open>parents\<close> or \<open>children\<close>, and they are in non-increasing order of fitness.
\<close>

theorem plus_strategy_result:
  assumes "replacement w p parents children ''plus_strategy'' options = (w', p')"
    and "options = None \<and> s = count w p \<or>
         (\<exists>opts. options = Some opts \<and>
            (newGenerationSize opts = None \<and> s = count w p \<or>
             newGenerationSize opts = Some 0 \<and> s = count w p \<or>
             0 < s \<and> newGenerationSize opts = Some (int s)))"
  shows "length (arrs w' (individuals p')) =
           min s (length (arrs w parents) + length (arrs w children)) \<and>
         set (arrs w' (individuals p')) \<subseteq> set (arrs w parents) \<union> set (arrs w children) \<and>
         sorted_wrt (\<lambda>a b. fitness (inds w' b) \<le> fitness (inds w' a)) (arrs w' (individuals p'))"
proof -
  let ?sorted = "js_sort (by_fitness_desc (inds w)) (arrs w parents @ arrs w children)"
  let ?size = "option_or options newGenerationSize (int (count w p))"
  have size: "?size = int s"
    using assms(2) by (auto simp: option_or_def)
  have res: "arrs w' (individuals p') = slice0 ?sorted ?size" and h: "inds w' = inds w"
    using replacement_plus_strategy [OF assms(1)] by simp_all
  have "length (slice0 ?sorted ?size) =
          min s (length (arrs w parents) + length (arrs w children))"
    unfolding size by (simp add: length_slice0_nonneg length_js_sort)
  moreover have "set (slice0 ?sorted ?size) \<subseteq> set (arrs w parents) \<union> set (arrs w children)"
    using set_slice0 [of ?sorted ?size] by (simp add: set_js_sort)
  moreover have "sorted_wrt (\<lambda>a b. fitness (inds w b) \<le> fitness (inds w a)) (slice0 ?sorted ?size)"
    by (rule sorted_wrt_slice0) (rule sorted_js_sort)
  ultimately show ?thesis by (simp add: res h)
qed

theorem plus_strategy_result_witness:
  "arrs (fst (replacement w_ex p_ex 1 2 ''plus_strategy''
                (Some \<lparr> newGenerationSize = Some 2, generationGap = None \<rparr>)))
     (individuals (snd (replacement w_ex p_ex 1 2 ''plus_strategy''
                (Some \<lparr> newGenerationSize = Some 2, generationGap = None \<rparr>)))) = [5, 1] \<and>
   length (arrs (fst (replacement w_ex p_ex 1 2 ''plus_strategy''
                (Some \<lparr> newGenerationSize = Some 2, generationGap = None \<rparr>)))
     (individuals (snd (replacement w_ex p_ex 1 2 ''plus_strategy''
                (Some \<lparr> newGenerationSize = Some 2, generationGap = None \<rparr>)))))
     = min 2 (1 + 2)"
proof -
  let ?options = "Some \<lparr> newGenerationSize = Some 2, generationGap = None \<rparr>"
  have r: "replacement w_ex p_ex 1 2 ''plus_strategy'' ?options =
      (fst (replacement w_ex p_ex 1 2 ''plus_strategy'' ?options),
       snd (replacement w_ex p_ex 1 2 ''plus_strategy'' ?options))"
    by simp
  have n: "?options = None \<and> (2::nat) = count w_ex p_ex \<or>
         (\<exists>opts. ?options = Some opts \<and>
            (newGenerationSize opts = None \<and> (2::nat) = count w_ex p_ex \<or>
             newGenerationSize opts = Some 0 \<and> (2::nat) = count w_ex p_ex \<or>
             0 < (2::nat) \<and> newGenerationSize opts = Some (int 2)))"
    by simp
  have v: "arrs (fst (replacement w_ex p_ex 1 2 ''plus_strategy'' ?options))
     (individuals (snd (replacement w_ex p_ex 1 2 ''plus_strategy'' ?options))) = [5, 1]"
    by (simp add: replacement_def w_ex_def p_ex_def option_or_def array_sort_def new_array_def
      js_sort_def by_fitness_desc_def individual_of_def slice0_def count_def)
  from plus_strategy_result [OF r n] v show ?thesis
    by (simp add: w_ex_def)
qed

lemma replacement_plus_strategy_frame:
  "a < next_aref w \<Longrightarrow>
   arrs (fst (replacement w p parents children ''plus_strategy'' options)) a = arrs w a"
  by (simp add: replacement_def Let_def new_array_def array_sort_def)

lemma replacement_generational_frame:
  "arrs (fst (replacement w p parents children ''generational'' options)) = arrs w"
  by (simp add: replacement_def)

text \<open>
  C6. \<open>replacement\<close> with \<open>"comma_strategy"\<close> sorts the caller's \<open>children\<close> array in
  place: array 2 holds the references 4, 5 before the call and 5, 4 after it.
  (\<open>"separate_competition"\<close> sorts both \<open>parents\<close> and \<open>children\<close> in place;
  \<open>"plus_strategy"\<close> and \<open>getBestParents\<close> sort a copy.)
\<close>

theorem replacement_comma_sorts_children_in_place:
  "arrs w_ex 2 = [4, 5] \<and>
   arrs (fst (replacement w_ex p_ex 1 2 ''comma_strategy'' None)) 2 = [5, 4]"
  by (simp add: replacement_def w_ex_def p_ex_def option_or_def array_sort_def new_array_def
      js_sort_def by_fitness_desc_def individual_of_def slice0_def)

subsection \<open>Genetic operators\<close>

lemmas number_eval =
  binary64_def floor_log2_def pow2_def round_half_even_def max_double_def bit_length.simps
  js_sub_def n_is_zero_def array_index_def array_length_def scaled_draw_def

lemmas mutation_eval =
  applyGeneticOperators_def w_ex_def p_ex_def ea_real_def mutation_f_def mutated_values_def
  variable_length_operators_def EAIndividual_def mutation_generateFunction_def Object_keys_def
  individual_of_def indexOf_def uniform_f_def extremal_f_def obj_get_def draws_of_def
  sum_fitness_def children_of_def Let_def

lemma make_children_length:
  "make_children fl f ff rnd n ps w c = (ch, w', c') \<Longrightarrow> length ch = length ps"
  by (induction ps arbitrary: w c ch w' c') (auto simp: Let_def split: prod.splits)

lemma applyGeneticOperators_length:
  "applyGeneticOperators fl w p (Some ps) method options rnd c = Some (ch, w', c') \<Longrightarrow>
   length ch = length ps"
  by (auto simp: applyGeneticOperators_def Let_def make_children_length split: if_splits)

lemma extremal_mutation_is_uniform_mutation:
  "applyGeneticOperators fl w p parents ''extremal_mutation'' options rnd c =
   applyGeneticOperators fl w p parents ''uniform_mutation'' options rnd c"
  by (simp add: applyGeneticOperators_def mutation_f_def variable_length_operators_def
      split: option.splits)



text \<open>
  C2. The parent has the variables \<open>x = 3\<close>, \<open>y = 0\<close> and the interval is \<open>[0, 10]\<close>.
  With the method \<open>"extremal_mutation"\<close> and the draws 0.125, 0.5, 0.125 the position
  of \<open>x\<close> is mutated and receives the value 5, which is neither bound of the
  interval: the extremal value function is overwritten by the uniform one.
\<close>

theorem extremal_mutation_interior_value:
  "interval (algorithm p_ex) = [0, 10] \<and>
   variables (inds w_ex 1) = [(Named ''x'', Finite 3), (Named ''y'', Finite 0)] \<and>
   children_of (applyGeneticOperators binary64 w_ex p_ex (Some [1]) ''extremal_mutation'' None
     (draws_of [1 / 8, 1 / 2, 1 / 8]) 0) = [ [(Named ''x'', Finite 5), (Named ''y'', Finite 0)] ]"
  by (simp add: mutation_eval number_eval)

text \<open>
  C5. With \<open>number_of_mutated_values = 1\<close> and the draws 0.125, 0.5, 0.625, 0.5 the
  child of the parent \<open>x = 3\<close>, \<open>y = 0\<close> has both of its two values replaced; with the
  draws 0.625, 0.125 none is replaced. The positions are drawn again for every variable,
  not once for the parent.
\<close>

theorem uniform_mutation_positions_per_variable:
  "variables (inds w_ex 1) = [(Named ''x'', Finite 3), (Named ''y'', Finite 0)] \<and>
   children_of (applyGeneticOperators binary64 w_ex p_ex (Some [1]) ''uniform_mutation''
     (Some \<lparr> number_of_mutated_values = Some 1 \<rparr>)
     (draws_of [1 / 8, 1 / 2, 5 / 8, 1 / 2]) 0)
     = [ [(Named ''x'', Finite 5), (Named ''y'', Finite 5)] ] \<and>
   children_of (applyGeneticOperators binary64 w_ex p_ex (Some [1]) ''uniform_mutation''
     (Some \<lparr> number_of_mutated_values = Some 1 \<rparr>)
     (draws_of [5 / 8, 1 / 8]) 0) = [ [(Named ''x'', Finite 3), (Named ''y'', Finite 0)] ]"
  by (simp add: mutation_eval number_eval)

end
